theory Spec2Isabelle
  imports Main
begin

section \<open>Data model: the uploaded frame\<close>

text \<open>
  The program receives a pandas frame read from a CSV file or a workbook. A cell of such a
  frame is a missing value (\<open>NaN\<close> or \<open>None\<close>), a text or a number. The type of
  numbers is left open (\<open>'n\<close>): nothing below computes with them.
\<close>

datatype 'n cell = Null | Str string | Num 'n

text \<open>
  A column has a dtype. A column of a numeric dtype holds numbers and missing values only;
  a column of dtype \<open>object\<close> holds arbitrary cells.
\<close>

datatype 'n column = NumericCol "'n option list" | ObjectCol "'n cell list"

text \<open>
  A frame: the length of its index and its columns by name. Column names of a frame read
  from a file are distinct (the readers rename repeated headers), hence a map.
\<close>

record 'n dataframe =
  nrows :: nat
  columns :: "string \<rightharpoonup> 'n column"

text \<open>The exceptions \<open>validate_data\<close> can let escape.\<close>

datatype py_error =
    KeyError string  \<comment> \<open>\<open>df[col]\<close> on a name that is no column\<close>
  | TypeError nat    \<comment> \<open>\<open>str.join\<close>: the position of the first item that is no \<open>str\<close>\<close>

section \<open>The pandas operations the program calls\<close>

fun opt_cell :: "'n option \<Rightarrow> 'n cell" where
  "opt_cell None = Null"
| "opt_cell (Some n) = Num n"

fun tolist :: "'n column \<Rightarrow> 'n cell list" where
  "tolist (NumericCol xs) = map opt_cell xs"
| "tolist (ObjectCol cs) = cs"

fun is_numeric_dtype :: "'n column \<Rightarrow> bool" where
  "is_numeric_dtype (NumericCol xs) = True"
| "is_numeric_dtype (ObjectCol cs) = False"

definition isnull :: "'n column \<Rightarrow> bool list" where
  "isnull c = map (\<lambda>x. x = Null) (tolist c)"

definition eq_str :: "'n column \<Rightarrow> string \<Rightarrow> bool list" where
  "eq_str c s = map (\<lambda>x. x = Str s) (tolist c)"

definition any_true :: "bool list \<Rightarrow> bool" where
  "any_true bs = list_ex (\<lambda>b. b) bs"

text \<open>
  \<open>Series.duplicated()\<close> with its default \<open>keep='first'\<close>: a position is marked when
  its value has occurred at an earlier position.
\<close>

fun duplicated_from :: "'a list \<Rightarrow> 'a list \<Rightarrow> bool list" where
  "duplicated_from seen [] = []"
| "duplicated_from seen (x # xs) = (x \<in> set seen) # duplicated_from (x # seen) xs"

definition duplicated :: "'n column \<Rightarrow> bool list" where
  "duplicated c = duplicated_from [] (tolist c)"

text \<open>Selection by a boolean mask: \<open>df[mask]['c_code'].tolist()\<close>.\<close>

definition select_mask :: "'a list \<Rightarrow> bool list \<Rightarrow> 'a list" where
  "select_mask xs flags = map fst (filter snd (zip xs flags))"

text \<open>\<open>sep.join(items)\<close> on texts.\<close>

fun join_strs :: "string \<Rightarrow> string list \<Rightarrow> string" where
  "join_strs sep [] = []"
| "join_strs sep [x] = x"
| "join_strs sep (x # y # ys) = x @ sep @ join_strs sep (y # ys)"

text \<open>
  \<open>sep.join(items)\<close> on cells: Python raises \<open>TypeError\<close> at the first item that is not
  a text.
\<close>

fun first_non_str :: "'n cell list \<Rightarrow> nat option" where
  "first_non_str [] = None"
| "first_non_str (Str s # cs) = map_option Suc (first_non_str cs)"
| "first_non_str (c # cs) = Some 0"

fun str_of :: "'n cell \<Rightarrow> string" where
  "str_of (Str s) = s"
| "str_of c = []"

definition join_cells :: "string \<Rightarrow> 'n cell list \<Rightarrow> py_error + string" where
  "join_cells sep cs =
     (case first_non_str cs of
        Some i \<Rightarrow> Inl (TypeError i)
      | None \<Rightarrow> Inr (join_strs sep (map str_of cs)))"

text \<open>
  \<open>pd.to_numeric(column, errors='coerce')\<close>. The parser of a single text is a parameter
  (\<open>parse\<close>): it answers \<open>None\<close> for a text that is no number. A missing value and the
  empty text become \<open>NaN\<close>, a number is kept, and with \<open>errors='coerce'\<close> a text that
  does not parse becomes \<open>NaN\<close> instead of raising. The result has a numeric dtype.
  The call therefore always returns; its type keeps the exceptional outcome so that the
  handler around it has a branch in the model.
\<close>

fun to_numeric_cell :: "(string \<Rightarrow> 'n option) \<Rightarrow> 'n cell \<Rightarrow> 'n option" where
  "to_numeric_cell parse Null = None"
| "to_numeric_cell parse (Num n) = Some n"
| "to_numeric_cell parse (Str s) = (if s = [] then None else parse s)"

definition to_numeric_coerce :: "(string \<Rightarrow> 'n option) \<Rightarrow> 'n column \<Rightarrow> py_error + 'n column" where
  "to_numeric_coerce parse c = Inr (NumericCol (map (to_numeric_cell parse) (tolist c)))"

section \<open>validate_data\<close>

definition required_columns :: "string list" where
  "required_columns = [''c_code'', ''flash_price'', ''consignment_price'', ''speed_discount_price'']"

definition price_columns :: "string list" where
  "price_columns = [''flash_price'', ''consignment_price'', ''speed_discount_price'']"

type_synonym 'n validated = "(py_error + bool \<times> string) \<times> 'n dataframe"

text \<open>
  The loop over the price columns (lines 36 to 43). The frame is updated in place, so it is
  threaded through and returned.
\<close>

fun check_prices :: "(string \<Rightarrow> 'n option) \<Rightarrow> string list \<Rightarrow> 'n dataframe \<Rightarrow> 'n validated" where
  "check_prices parse [] df = (Inr (True, ''Data validation successful''), df)"
| "check_prices parse (col # cols) df =
     (case columns df col of
        None \<Rightarrow> (Inl (KeyError col), df)
      | Some c \<Rightarrow>
          if \<not> is_numeric_dtype c then
            (case to_numeric_coerce parse c of
               Inr c' \<Rightarrow> check_prices parse cols (df\<lparr>columns := (columns df)(col \<mapsto> c')\<rparr>)
             | Inl e \<Rightarrow>
                 (Inr (False, ''Column '' @ col @ '' contains non-numeric values that cannot be converted''), df))
          else check_prices parse cols df)"

definition validate_data :: "(string \<Rightarrow> 'n option) \<Rightarrow> 'n dataframe \<Rightarrow> 'n validated" where
  "validate_data parse df =
     (let missing_columns = filter (\<lambda>col. columns df col = None) required_columns in
      if missing_columns \<noteq> [] then
        (Inr (False, ''Missing required columns: '' @ join_strs '', '' missing_columns), df)
      else
        (case columns df ''c_code'' of
           None \<Rightarrow> (Inl (KeyError ''c_code''), df)
         | Some c_code \<Rightarrow>
             if any_true (isnull c_code) \<or> any_true (eq_str c_code []) then
               (Inr (False, ''c_code column cannot have empty values''), df)
             else if any_true (duplicated c_code) then
               (case join_cells '', '' (select_mask (tolist c_code) (duplicated c_code)) of
                  Inl e \<Rightarrow> (Inl e, df)
                | Inr duplicates \<Rightarrow>
                    (Inr (False, ''Duplicate c_code values found: '' @ duplicates), df))
             else check_prices parse price_columns df))"

section \<open>upload_to_bigquery\<close>

text \<open>
  The exceptions of the credential sources and of the store, by the class the handlers
  test for, each with the text \<open>str(e)\<close> gives.
\<close>

datatype exn_class = KeyError_class | FileNotFoundError_class | Exception_class

record exn =
  exn_class :: exn_class
  exn_text :: string

type_synonym credentials = string

text \<open>
  What the surroundings answer during one call: the secret store's entry
  \<open>service_account\<close>, the local file \<open>service_account.json\<close>, the construction of
  the client, the submission of the load job and the wait for its result.
\<close>

record env =
  secrets_service_account :: "exn + credentials"
  service_account_file :: "exn + credentials"
  client_reply :: "exn option"
  load_reply :: "exn option"
  result_reply :: "exn option"

record 'n load_job =
  job_credentials :: credentials
  job_table_id :: string
  job_write_disposition :: string
  job_schema :: "(string \<times> string \<times> string) list"
  job_frame :: "'n dataframe"

text \<open>
  The store: the rows of the target table, and the load jobs submitted to it so far.
  A row lists the cells of the schema's fields.
\<close>

type_synonym 'n row = "(string \<times> 'n cell) list"

record 'n bigquery =
  table_rows :: "'n row list"
  jobs :: "'n load_job list"

definition schema :: "(string \<times> string \<times> string) list" where
  "schema =
     [(''c_code'', ''STRING'', ''REQUIRED''),
      (''flash_price'', ''FLOAT64'', ''NULLABLE''),
      (''consignment_price'', ''FLOAT64'', ''NULLABLE''),
      (''speed_discount_price'', ''FLOAT64'', ''NULLABLE'')]"

definition table_id :: string where
  "table_id = ''pricing-338819.wholesale_test.showroom_discount''"

definition cell_at :: "'n dataframe \<Rightarrow> string \<Rightarrow> nat \<Rightarrow> 'n cell" where
  "cell_at df col i =
     (case columns df col of
        None \<Rightarrow> Null
      | Some c \<Rightarrow> if i < length (tolist c) then tolist c ! i else Null)"

definition frame_row :: "'n dataframe \<Rightarrow> nat \<Rightarrow> 'n row" where
  "frame_row df i = map (\<lambda>f. (fst f, cell_at df (fst f) i)) schema"

definition frame_rows :: "'n dataframe \<Rightarrow> 'n row list" where
  "frame_rows df = map (frame_row df) [0..<nrows df]"

text \<open>\<open>str(n)\<close> of a natural number: its decimal digits.\<close>

fun str_nat :: "nat \<Rightarrow> string" where
  "str_nat n =
     (if n < 10 then [char_of (48 + n)]
      else str_nat (n div 10) @ [char_of (48 + n mod 10)])"

text \<open>
  Lines 63 to 84, once credentials are at hand. Any exception is caught by the outer
  handler of the function (line 86). A load job that completes in mode \<open>WRITE_APPEND\<close>
  adds the frame's rows after the rows the table holds; one that fails adds none.
\<close>

definition append_error :: "exn \<Rightarrow> bool \<times> string" where
  "append_error e = (False, ''Error appending to BigQuery: '' @ exn_text e)"

definition load_frame :: "env \<Rightarrow> 'n bigquery \<Rightarrow> 'n dataframe \<Rightarrow> credentials \<Rightarrow> (bool \<times> string) \<times> 'n bigquery" where
  "load_frame ev bq df cred =
     (case client_reply ev of
        Some e \<Rightarrow> (append_error e, bq)
      | None \<Rightarrow>
          (let job = \<lparr>job_credentials = cred, job_table_id = table_id,
                      job_write_disposition = ''WRITE_APPEND'', job_schema = schema,
                      job_frame = df\<rparr>;
               bq1 = bq\<lparr>jobs := jobs bq @ [job]\<rparr>
           in case load_reply ev of
                Some e \<Rightarrow> (append_error e, bq1)
              | None \<Rightarrow>
                  (case result_reply ev of
                     Some e \<Rightarrow> (append_error e, bq1)
                   | None \<Rightarrow>
                       ((True, ''Successfully uploaded '' @ str_nat (nrows df)
                                 @ '' rows to showroom_discount table''),
                        bq1\<lparr>table_rows := table_rows bq1 @ frame_rows df\<rparr>))))"

definition upload_to_bigquery :: "env \<Rightarrow> 'n bigquery \<Rightarrow> 'n dataframe \<Rightarrow> (bool \<times> string) \<times> 'n bigquery" where
  "upload_to_bigquery ev bq df =
     (case secrets_service_account ev of
        Inr cred \<Rightarrow> load_frame ev bq df cred
      | Inl e \<Rightarrow>
          if exn_class e = KeyError_class \<or> exn_class e = FileNotFoundError_class then
            (case service_account_file ev of
               Inr cred \<Rightarrow> load_frame ev bq df cred
             | Inl e2 \<Rightarrow>
                 if exn_class e2 = FileNotFoundError_class then
                   ((False, ''Error: No credentials found for BigQuery access''), bq)
                 else (append_error e2, bq))
          else (append_error e, bq))"

section \<open>main: from validation to the upload\<close>

text \<open>
  Lines 174 to 198 of \<open>main\<close>, for a frame already read: what is shown to the user, and
  the store afterwards. \<open>clicked\<close> is the answer of the upload button.
\<close>

datatype ui =
    St_success string
  | St_error string
  | St_info string
  | St_balloons
  | St_error_reading_file py_error

definition main_validate_upload ::
  "(string \<Rightarrow> 'n option) \<Rightarrow> env \<Rightarrow> 'n bigquery \<Rightarrow> 'n dataframe \<Rightarrow> bool \<Rightarrow> ui list \<times> 'n bigquery" where
  "main_validate_upload parse ev bq df clicked =
     (case validate_data parse df of
        (Inl e, df') \<Rightarrow> ([St_error_reading_file e], bq)
      | (Inr (is_valid, validation_message), df') \<Rightarrow>
          if is_valid then
            (if clicked then
               (case upload_to_bigquery ev bq df' of
                  ((success, message), bq') \<Rightarrow>
                    if success then ([St_success validation_message, St_success message, St_balloons], bq')
                    else ([St_success validation_message, St_error message], bq'))
             else ([St_success validation_message], bq))
          else
            ([St_error validation_message, St_info ''Please fix the data issues and upload again.''], bq))"

section \<open>Auxiliary notions and example data\<close>


declare str_nat.simps [simp del]

text \<open>
  The column the price loop leaves for a column it visits: a column of numeric dtype as it
  is, any other converted.
\<close>

definition coerced :: "(string \<Rightarrow> 'n option) \<Rightarrow> 'n column \<Rightarrow> 'n column" where
  "coerced parse c = (if is_numeric_dtype c then c else NumericCol (map (to_numeric_cell parse) (tolist c)))"

text \<open>The conditions of the checks, as predicates on a frame and on its \<open>c_code\<close> column.\<close>

definition has_required_columns :: "'n dataframe \<Rightarrow> bool" where
  "has_required_columns df = list_all (\<lambda>col. columns df col \<noteq> None) required_columns"

definition codes_present :: "'n column \<Rightarrow> bool" where
  "codes_present c = (Null \<notin> set (tolist c) \<and> Str [] \<notin> set (tolist c))"

text \<open>
  A price cell that is a number, missing, empty, or a text that the parser reads as a
  number.
\<close>

fun numeric_or_empty :: "(string \<Rightarrow> 'n option) \<Rightarrow> 'n cell \<Rightarrow> bool" where
  "numeric_or_empty parse Null = True"
| "numeric_or_empty parse (Num n) = True"
| "numeric_or_empty parse (Str s) = (s = [] \<or> parse s \<noteq> None)"

definition prices_numeric_or_empty :: "(string \<Rightarrow> 'n option) \<Rightarrow> 'n dataframe \<Rightarrow> bool" where
  "prices_numeric_or_empty parse df =
     list_all (\<lambda>col. case columns df col of
                         None \<Rightarrow> True
                       | Some c \<Rightarrow> list_all (numeric_or_empty parse) (tolist c)) price_columns"

text \<open>
  A parser for the examples: it reads a text of decimal digits as the number they write
  and rejects every other text.
\<close>

definition digit_val :: "char \<Rightarrow> nat option" where
  "digit_val c = (if 48 \<le> (of_char c :: nat) \<and> (of_char c :: nat) \<le> 57 then Some (of_char c - 48) else None)"

fun parse_digits :: "nat \<Rightarrow> string \<Rightarrow> nat option" where
  "parse_digits acc [] = Some acc"
| "parse_digits acc (c # cs) =
     (case digit_val c of None \<Rightarrow> None | Some d \<Rightarrow> parse_digits (10 * acc + d) cs)"

definition parse_decimal :: "string \<Rightarrow> int option" where
  "parse_decimal s = (if s = [] then None else map_option int (parse_digits 0 s))"

text \<open>
  Example frames, as the readers would deliver them: a column whose cells are all numbers
  or missing has a numeric dtype, any other column has dtype \<open>object\<close>.
  \<open>scenario_A\<close> and \<open>scenario_D\<close> are the scenarios A and D of the specification.
\<close>

definition mk_frame :: "nat \<Rightarrow> (string \<times> 'n column) list \<Rightarrow> 'n dataframe" where
  "mk_frame n kvs = \<lparr>nrows = n, columns = map_of kvs\<rparr>"

definition scenario_A :: "int dataframe" where
  "scenario_A = mk_frame 2
     [(''c_code'', ObjectCol [Str ''c-001'', Str ''c-002'']),
      (''flash_price'', NumericCol [Some 25000, Some 30000]),
      (''consignment_price'', ObjectCol [Str ''27000'', Str []]),
      (''speed_discount_price'', NumericCol [Some 24000, Some 21000])]"

definition scenario_D :: "int dataframe" where
  "scenario_D = mk_frame 1
     [(''c_code'', ObjectCol [Str ''c-001'']),
      (''flash_price'', ObjectCol [Str ''abc'']),
      (''consignment_price'', NumericCol [Some 27000]),
      (''speed_discount_price'', NumericCol [Some 24000])]"

definition thrice :: "int dataframe" where
  "thrice = mk_frame 4
     [(''c_code'', ObjectCol [Str ''c-001'', Str ''c-002'', Str ''c-001'', Str ''c-001'']),
      (''flash_price'', NumericCol [Some 25000, Some 30000, Some 22000, None]),
      (''consignment_price'', NumericCol [Some 27000, None, None, None]),
      (''speed_discount_price'', NumericCol [None, None, None, None])]"

definition numeric_codes :: "int dataframe" where
  "numeric_codes = mk_frame 2
     [(''c_code'', NumericCol [Some 7, Some 7]),
      (''flash_price'', NumericCol [Some 25000, Some 30000]),
      (''consignment_price'', NumericCol [Some 27000, None]),
      (''speed_discount_price'', NumericCol [None, None])]"

definition several_faults :: "int dataframe" where
  "several_faults = mk_frame 3
     [(''c_code'', ObjectCol [Str ''c-001'', Null, Str ''c-001'']),
      (''flash_price'', ObjectCol [Str ''abc'', Str ''1'', Str ''2'']),
      (''consignment_price'', NumericCol [Some 27000, None, None]),
      (''speed_discount_price'', NumericCol [None, None, None])]"

definition two_columns :: "int dataframe" where
  "two_columns = mk_frame 2
     [(''c_code'', ObjectCol [Str [], Str []]),
      (''flash_price'', ObjectCol [Str ''abc'', Str ''1''])]"

definition no_rows :: "int dataframe" where
  "no_rows = mk_frame 0
     [(''c_code'', ObjectCol []),
      (''flash_price'', ObjectCol []),
      (''consignment_price'', ObjectCol []),
      (''speed_discount_price'', ObjectCol [])]"

text \<open>
  Example surroundings: one in which neither source has credentials, one in which the file
  has them and the store raises nothing; and a table that holds one row of an earlier
  upload.
\<close>

definition no_credentials :: env where
  "no_credentials =
     \<lparr>secrets_service_account = Inl \<lparr>exn_class = KeyError_class, exn_text = ''service_account''\<rparr>,
      service_account_file =
        Inl \<lparr>exn_class = FileNotFoundError_class, exn_text = ''No such file: service_account.json''\<rparr>,
      client_reply = None, load_reply = None, result_reply = None\<rparr>"

definition store_confirms :: env where
  "store_confirms =
     \<lparr>secrets_service_account = Inl \<lparr>exn_class = FileNotFoundError_class, exn_text = ''No secrets found''\<rparr>,
      service_account_file = Inr ''key-from-file'',
      client_reply = None, load_reply = None, result_reply = None\<rparr>"

definition earlier_upload :: "int bigquery" where
  "earlier_upload =
     \<lparr>table_rows =
        [[(''c_code'', Str ''c-000''), (''flash_price'', Num 19000),
          (''consignment_price'', Null), (''speed_discount_price'', Null)]],
      jobs = []\<rparr>"

lemmas frame_defs = mk_frame_def required_columns_def price_columns_def has_required_columns_def
  codes_present_def prices_numeric_or_empty_def

lemmas run_defs = validate_data_def any_true_def isnull_def eq_str_def duplicated_def
  select_mask_def join_cells_def to_numeric_coerce_def parse_decimal_def digit_val_def

lemma any_true_iff: "any_true bs \<longleftrightarrow> True \<in> set bs"
  by (induction bs) (auto simp: any_true_def)

lemma any_isnull_iff: "any_true (isnull c) \<longleftrightarrow> Null \<in> set (tolist c)"
  by (auto simp: any_true_iff isnull_def)

lemma any_eq_str_iff: "any_true (eq_str c s) \<longleftrightarrow> Str s \<in> set (tolist c)"
  by (auto simp: any_true_iff eq_str_def)

lemma any_duplicated_from_iff:
  "any_true (duplicated_from seen xs) \<longleftrightarrow> \<not> (distinct xs \<and> set xs \<inter> set seen = {})"
  by (induction xs arbitrary: seen) (auto simp: any_true_def)

lemma any_duplicated_iff: "any_true (duplicated c) \<longleftrightarrow> \<not> distinct (tolist c)"
  by (simp add: duplicated_def any_duplicated_from_iff)

lemma count_select_duplicated:
  "count_list (select_mask xs (duplicated_from seen xs)) x =
     (if x \<in> set seen then count_list xs x else count_list xs x - 1)"
  by (induction xs arbitrary: seen) (auto simp: select_mask_def)

lemma first_non_str_map_Str: "first_non_str (map Str ss) = None"
  by (induction ss) auto

lemma select_mask_map: "select_mask (map f xs) bs = map f (select_mask xs bs)"
  by (induction xs bs rule: list_induct2') (auto simp: select_mask_def)

lemma duplicated_from_map_inj:
  "inj f \<Longrightarrow> duplicated_from (map f seen) (map f xs) = duplicated_from seen xs"
proof (induction xs arbitrary: seen)
  case Nil
  then show ?case by simp
next
  case (Cons a xs)
  have "duplicated_from (map f (a # seen)) (map f xs) = duplicated_from (a # seen) xs"
    using Cons.IH [OF Cons.prems] .
  then show ?case using Cons.prems by (simp add: inj_image_mem_iff)
qed

lemma coerced_idem: "coerced parse (coerced parse c) = coerced parse c"
  by (cases c) (auto simp: coerced_def)

lemma nrows_check_prices: "nrows (snd (check_prices parse cols df)) = nrows df"
  by (induction cols arbitrary: df) (auto simp: to_numeric_coerce_def split: option.splits)

lemma columns_check_prices_other:
  "c \<notin> set cols \<Longrightarrow> columns (snd (check_prices parse cols df)) c = columns df c"
  by (induction cols arbitrary: df) (auto simp: to_numeric_coerce_def split: option.splits)

lemma columns_check_prices_length:
  "map_option (\<lambda>k. length (tolist k)) (columns (snd (check_prices parse cols df)) c)
     = map_option (\<lambda>k. length (tolist k)) (columns df c)"
  by (induction cols arbitrary: df) (auto simp: to_numeric_coerce_def split: option.splits)

lemma fst_check_prices:
  "\<forall>c\<in>set cols. columns df c \<noteq> None \<Longrightarrow>
     fst (check_prices parse cols df) = Inr (True, ''Data validation successful'')"
  by (induction cols arbitrary: df) (auto simp: to_numeric_coerce_def split: option.splits)

lemma columns_check_prices_in:
  "\<forall>c\<in>set cols. columns df c \<noteq> None \<Longrightarrow> c \<in> set cols \<Longrightarrow>
     columns (snd (check_prices parse cols df)) c = map_option (coerced parse) (columns df c)"
proof (induction cols arbitrary: df)
  case Nil
  then show ?case by simp
next
  case (Cons col cols)
  then obtain k where k: "columns df col = Some k" by auto
  let ?df1 = "df\<lparr>columns := (columns df)(col \<mapsto> coerced parse k)\<rparr>"
  have step: "check_prices parse (col # cols) df = check_prices parse cols ?df1"
  proof (cases "is_numeric_dtype k")
    case True
    then have "?df1 = df" using k by (simp add: coerced_def fun_upd_idem)
    then show ?thesis using k True by simp
  next
    case False
    then show ?thesis using k by (simp add: to_numeric_coerce_def coerced_def)
  qed
  have pres: "\<forall>c\<in>set cols. columns ?df1 c \<noteq> None" using Cons.prems(1) by auto
  show ?case
  proof (cases "c \<in> set cols")
    case True
    have "columns (snd (check_prices parse cols ?df1)) c = map_option (coerced parse) (columns ?df1 c)"
      using Cons.IH [OF pres True] .
    then show ?thesis using step k
      by (cases "c = col") (auto simp: coerced_idem)
  next
    case False
    then have "c = col" using Cons.prems(2) by simp
    then show ?thesis using step k columns_check_prices_other [OF False, of parse ?df1] by simp
  qed
qed


lemma has_required_iff: "has_required_columns df \<longleftrightarrow> filter (\<lambda>col. columns df col = None) required_columns = []"
  by (simp add: has_required_columns_def list_all_iff filter_empty_conv)

lemma has_required_prices: "has_required_columns df \<Longrightarrow> \<forall>c\<in>set price_columns. columns df c \<noteq> None"
  by (simp add: has_required_columns_def required_columns_def price_columns_def)

lemma validate_passes:
  assumes "has_required_columns df" "columns df ''c_code'' = Some cc" "codes_present cc"
    "distinct (tolist cc)"
  shows "validate_data parse df = check_prices parse price_columns df"
  using assms
  by (simp add: validate_data_def has_required_iff any_isnull_iff any_eq_str_iff any_duplicated_iff
      codes_present_def)

section \<open>The example frames, evaluated\<close>

lemmas upload_defs = upload_to_bigquery_def load_frame_def append_error_def

lemma upload_store_confirms:
  "upload_to_bigquery store_confirms bq df =
     ((True, ''Successfully uploaded '' @ str_nat (nrows df) @ '' rows to showroom_discount table''),
      bq\<lparr>jobs := jobs bq @ [\<lparr>job_credentials = ''key-from-file'', job_table_id = table_id,
                                 job_write_disposition = ''WRITE_APPEND'', job_schema = schema,
                                 job_frame = df\<rparr>],
         table_rows := table_rows bq @ frame_rows df\<rparr>)"
  by (simp add: upload_defs store_confirms_def Let_def)

lemma validated_scenario_A:
  "fst (validate_data parse_decimal scenario_A) = Inr (True, ''Data validation successful'')"
  "nrows (snd (validate_data parse_decimal scenario_A)) = 2"
  "frame_rows (snd (validate_data parse_decimal scenario_A)) =
     [[(''c_code'', Str ''c-001''), (''flash_price'', Num 25000),
       (''consignment_price'', Num 27000), (''speed_discount_price'', Num 24000)],
      [(''c_code'', Str ''c-002''), (''flash_price'', Num 30000),
       (''consignment_price'', Null), (''speed_discount_price'', Num 21000)]]"
  by (simp_all add: scenario_A_def frame_defs run_defs frame_rows_def frame_row_def cell_at_def
      schema_def upt_rec)

lemma validated_scenario_D:
  "fst (validate_data parse_decimal scenario_D) = Inr (True, ''Data validation successful'')"
  "nrows (snd (validate_data parse_decimal scenario_D)) = 1"
  "frame_rows (snd (validate_data parse_decimal scenario_D)) =
     [[(''c_code'', Str ''c-001''), (''flash_price'', Null),
       (''consignment_price'', Num 27000), (''speed_discount_price'', Num 24000)]]"
  by (simp_all add: scenario_D_def frame_defs run_defs frame_rows_def frame_row_def cell_at_def
      schema_def upt_rec)

lemma str_nat_small: "str_nat 1 = ''1''" "str_nat 2 = ''2''"
  by code_simp+

lemma parse_digits_append:
  "parse_digits acc (xs @ ys) =
     (case parse_digits acc xs of None \<Rightarrow> None | Some a \<Rightarrow> parse_digits a ys)"
  by (induction xs arbitrary: acc) (auto split: option.splits)

lemma digit_val_char_of: "d < 10 \<Longrightarrow> digit_val (char_of (48 + d)) = Some d"
  by (simp add: digit_val_def)

text \<open>The digits \<open>str_nat\<close> writes denote the number: reading them back gives it.\<close>

lemma parse_digits_str_nat: "parse_digits 0 (str_nat n) = Some n"
proof (induction n rule: str_nat.induct)
  case (1 n)
  show ?case
  proof (cases "n < 10")
    case True
    then show ?thesis by (subst str_nat.simps) (simp add: digit_val_char_of)
  next
    case False
    have d: "digit_val (char_of (48 + n mod 10)) = Some (n mod 10)"
      by (rule digit_val_char_of) simp
    show ?thesis using False 1 d
      by (subst str_nat.simps) (simp add: parse_digits_append)
  qed
qed

section \<open>Schema completeness\<close>

text \<open>
  Claim C6. A frame that lacks one or more of the four required columns is rejected by the
  first check: the message lists exactly the missing names, in the order of
  \<open>required_columns\<close>, joined by a comma and a space. No row is looked at: the result
  depends on the column names only, and the frame is returned as it was.
\<close>

theorem validate_missing_columns:
  assumes "\<not> has_required_columns df"
  shows "validate_data parse df =
           (Inr (False, ''Missing required columns: ''
                   @ join_strs '', '' (filter (\<lambda>col. columns df col = None) required_columns)), df)"
  using assms by (simp add: validate_data_def has_required_iff)

theorem validate_missing_columns_witness:
  "\<not> has_required_columns two_columns \<and>
   validate_data parse_decimal two_columns =
     (Inr (False, ''Missing required columns: consignment_price, speed_discount_price''), two_columns)"
proof -
  have h: "\<not> has_required_columns two_columns"
    by (simp add: two_columns_def frame_defs)
  show ?thesis
    using h validate_missing_columns [OF h, of parse_decimal]
    by (simp add: two_columns_def frame_defs)
qed

section \<open>Required field\<close>

text \<open>
  Claim C5. With the four columns present, a \<open>c_code\<close> column that holds a missing
  value or the empty text is rejected with the fixed message about \<open>c_code\<close>. Nothing
  is assumed about repeated codes or about the price columns, so this answer is given
  whatever else is wrong with the frame; the frame is returned as it was.
\<close>

theorem validate_empty_c_code:
  assumes "has_required_columns df" "columns df ''c_code'' = Some cc" "\<not> codes_present cc"
  shows "validate_data parse df = (Inr (False, ''c_code column cannot have empty values''), df)"
  using assms
  by (auto simp: validate_data_def has_required_iff any_isnull_iff any_eq_str_iff codes_present_def)

theorem validate_empty_c_code_witness:
  "has_required_columns several_faults \<and>
   columns several_faults ''c_code'' = Some (ObjectCol [Str ''c-001'', Null, Str ''c-001'']) \<and>
   \<not> codes_present (ObjectCol [Str ''c-001'', Null, Str ''c-001''] :: int column) \<and>
   \<not> distinct (tolist (ObjectCol [Str ''c-001'', Null, Str ''c-001''] :: int column)) \<and>
   \<not> prices_numeric_or_empty parse_decimal several_faults \<and>
   validate_data parse_decimal several_faults =
     (Inr (False, ''c_code column cannot have empty values''), several_faults)"
proof -
  have h1: "has_required_columns several_faults"
    by (simp add: several_faults_def frame_defs)
  have h2: "columns several_faults ''c_code'' = Some (ObjectCol [Str ''c-001'', Null, Str ''c-001''])"
    by (simp add: several_faults_def frame_defs)
  have h3: "\<not> codes_present (ObjectCol [Str ''c-001'', Null, Str ''c-001''] :: int column)"
    by (simp add: codes_present_def)
  have h4: "\<not> prices_numeric_or_empty parse_decimal several_faults"
    by (simp add: several_faults_def frame_defs parse_decimal_def digit_val_def)
  show ?thesis
    using h1 h2 h3 h4 validate_empty_c_code [OF h1 h2 h3, of parse_decimal] by simp
qed


section \<open>Uniqueness\<close>

lemma join_cells_map_Str: "join_cells sep (map Str ss) = Inr (join_strs sep ss)"
  by (simp add: join_cells_def first_non_str_map_Str o_def)

lemma duplicated_from_map_Str: "duplicated_from [] (map Str codes) = duplicated_from [] codes"
  using duplicated_from_map_inj [of Str "[]" codes] by (simp add: inj_def)

text \<open>
  Claim C3, as the code has it. With the four columns present and every \<open>c_code\<close> a
  non-empty text, a frame in which some code occurs twice or more is rejected, and the
  message lists, in the order of the frame, every occurrence of a code after its first
  one: a code that occurs \<open>k\<close> times is listed \<open>k - 1\<close> times (a code that occurs three
  times is listed twice), and a code that occurs once is not listed.
\<close>

theorem validate_duplicate_c_code:
  assumes "has_required_columns df" "columns df ''c_code'' = Some cc"
    "tolist cc = map Str codes" "[] \<notin> set codes" "\<not> distinct codes"
  shows "validate_data parse df =
           (Inr (False, ''Duplicate c_code values found: ''
                   @ join_strs '', '' (select_mask codes (duplicated_from [] codes))), df)
         \<and> (\<forall>x. count_list (select_mask codes (duplicated_from [] codes)) x = count_list codes x - 1)"
proof -
  have inj: "inj (Str :: string \<Rightarrow> 'a cell)" by (simp add: inj_def)
  have present: "codes_present cc"
    using assms(3,4) by (auto simp: codes_present_def)
  have dup: "\<not> distinct (tolist cc)"
    using assms(3,5) by (simp add: distinct_map)
  have flags: "duplicated cc = duplicated_from [] codes"
    using assms(3) by (simp add: duplicated_def duplicated_from_map_Str)
  have sel: "select_mask (tolist cc) (duplicated cc) = map Str (select_mask codes (duplicated_from [] codes))"
    using assms(3) flags by (simp add: select_mask_map)
  have "validate_data parse df =
           (Inr (False, ''Duplicate c_code values found: ''
                   @ join_strs '', '' (select_mask codes (duplicated_from [] codes))), df)"
    using assms(1,2) present dup
    by (simp add: validate_data_def has_required_iff any_isnull_iff any_eq_str_iff any_duplicated_iff
        codes_present_def sel join_cells_map_Str)
  moreover have "\<forall>x. count_list (select_mask codes (duplicated_from [] codes)) x = count_list codes x - 1"
    by (simp add: count_select_duplicated)
  ultimately show ?thesis by blast
qed

theorem validate_duplicate_c_code_witness:
  "has_required_columns thrice \<and>
   columns thrice ''c_code'' = Some (ObjectCol [Str ''c-001'', Str ''c-002'', Str ''c-001'', Str ''c-001'']) \<and>
   validate_data parse_decimal thrice =
     (Inr (False, ''Duplicate c_code values found: c-001, c-001''), thrice) \<and>
   select_mask [''c-001'', ''c-002'', ''c-001'', ''c-001'']
     (duplicated_from [] [''c-001'', ''c-002'', ''c-001'', ''c-001'']) = [''c-001'', ''c-001'']"
proof -
  let ?codes = "[''c-001'', ''c-002'', ''c-001'', ''c-001'']"
  let ?cc = "ObjectCol (map Str ?codes) :: int column"
  have h1: "has_required_columns thrice"
    by (simp add: thrice_def frame_defs)
  have h2: "columns thrice ''c_code'' = Some ?cc"
    by (simp add: thrice_def frame_defs)
  have h3: "tolist ?cc = map Str ?codes" by simp
  have h4: "[] \<notin> set ?codes" by simp
  have h5: "\<not> distinct ?codes" by simp
  have sel: "select_mask ?codes (duplicated_from [] ?codes) = [''c-001'', ''c-001'']"
    by (simp add: select_mask_def)
  show ?thesis
    using h1 h2 sel validate_duplicate_c_code [OF h1 h2 h3 h4 h5, of parse_decimal]
    by simp
qed

text \<open>
  The claim as the specification words it: each repeated code is reported once. The frame
  \<open>thrice\<close> holds the code \<open>c-001\<close> three times, and the message names it twice.
\<close>

theorem validate_duplicate_listed_twice:
  "fst (validate_data parse_decimal thrice) = Inr (False, ''Duplicate c_code values found: c-001, c-001'')
   \<and> fst (validate_data parse_decimal thrice) \<noteq> Inr (False, ''Duplicate c_code values found: c-001'')"
  by (simp add: thrice_def frame_defs run_defs)

text \<open>
  Codes that are numbers (a column of numeric dtype, as a file of numeric codes is read):
  the repeated values are no texts and joining them raises.
\<close>

lemma validate_duplicate_numbers_raise:
  "fst (validate_data parse_decimal numeric_codes) = Inl (TypeError 0)"
  by (simp add: numeric_codes_def frame_defs run_defs)


section \<open>The price columns\<close>

lemma validate_cases:
  "snd (validate_data parse df) = df \<or>
   (has_required_columns df \<and> validate_data parse df = check_prices parse price_columns df)"
  by (auto simp: validate_data_def has_required_iff Let_def split: option.splits sum.splits)

lemma nrows_validate: "nrows (snd (validate_data parse df)) = nrows df"
  using validate_cases [of parse df] by (auto simp: nrows_check_prices)

lemma columns_validate_other:
  "c \<notin> set price_columns \<Longrightarrow> columns (snd (validate_data parse df)) c = columns df c"
  using validate_cases [of parse df] by (auto simp: columns_check_prices_other)

lemma columns_validate_length:
  "map_option (\<lambda>k. length (tolist k)) (columns (snd (validate_data parse df)) c)
     = map_option (\<lambda>k. length (tolist k)) (columns df c)"
  using validate_cases [of parse df] by (auto simp: columns_check_prices_length)

lemma columns_validate_None:
  "(columns (snd (validate_data parse df)) c = None) = (columns df c = None)"
  using columns_validate_length [of parse df c] by (metis map_option_is_None)

text \<open>
  Claim C4. A frame with the four columns, every \<open>c_code\<close> present and no code repeated,
  whose price cells are numbers, missing, empty texts or texts that parse, is accepted with
  the success message. The frame without rows is one of them.
\<close>

theorem validate_success:
  assumes "has_required_columns df" "columns df ''c_code'' = Some cc" "codes_present cc"
    "distinct (tolist cc)" "prices_numeric_or_empty parse df"
  shows "fst (validate_data parse df) = Inr (True, ''Data validation successful'')"
  using assms(1) validate_passes [OF assms(1-4), of parse]
  by (simp add: fst_check_prices has_required_prices)

theorem validate_success_witness:
  "has_required_columns no_rows \<and> columns no_rows ''c_code'' = Some (ObjectCol []) \<and>
   codes_present (ObjectCol [] :: int column) \<and> nrows no_rows = 0 \<and>
   prices_numeric_or_empty parse_decimal no_rows \<and>
   fst (validate_data parse_decimal no_rows) = Inr (True, ''Data validation successful'') \<and>
   has_required_columns scenario_A \<and>
   columns scenario_A ''c_code'' = Some (ObjectCol [Str ''c-001'', Str ''c-002'']) \<and>
   codes_present (ObjectCol [Str ''c-001'', Str ''c-002''] :: int column) \<and>
   prices_numeric_or_empty parse_decimal scenario_A \<and>
   fst (validate_data parse_decimal scenario_A) = Inr (True, ''Data validation successful'')"
proof -
  have a1: "has_required_columns no_rows"
    by (simp add: no_rows_def frame_defs)
  have a2: "columns no_rows ''c_code'' = Some (ObjectCol [])"
    by (simp add: no_rows_def frame_defs)
  have a3: "codes_present (ObjectCol [] :: int column)"
    by (simp add: codes_present_def)
  have a4: "distinct (tolist (ObjectCol [] :: int column))" by simp
  have a5: "prices_numeric_or_empty parse_decimal no_rows"
    by (simp add: no_rows_def frame_defs)
  have a6: "nrows no_rows = 0"
    by (simp add: no_rows_def frame_defs)
  have b1: "has_required_columns scenario_A"
    by (simp add: scenario_A_def frame_defs)
  have b2: "columns scenario_A ''c_code'' = Some (ObjectCol [Str ''c-001'', Str ''c-002''])"
    by (simp add: scenario_A_def frame_defs)
  have b3: "codes_present (ObjectCol [Str ''c-001'', Str ''c-002''] :: int column)"
    by (simp add: codes_present_def)
  have b4: "distinct (tolist (ObjectCol [Str ''c-001'', Str ''c-002''] :: int column))" by simp
  have b5: "prices_numeric_or_empty parse_decimal scenario_A"
    by (simp add: scenario_A_def frame_defs parse_decimal_def digit_val_def)
  show ?thesis
    using a1 a2 a3 a5 a6 b1 b2 b3 b5
      validate_success [OF a1 a2 a3 a4 a5] validate_success [OF b1 b2 b3 b4 b5]
    by simp
qed


lemma fst_check_prices_cases:
  "fst (check_prices parse cols df) = Inr (True, ''Data validation successful'') \<or>
   (\<exists>e. fst (check_prices parse cols df) = Inl e)"
  by (induction cols arbitrary: df) (auto simp: to_numeric_coerce_def split: option.splits)

text \<open>
  The message of line 41 is never returned: with \<open>errors='coerce'\<close> the conversion does
  not raise, so the handler that would name the column is not entered.
\<close>

lemma validate_never_names_price_column:
  "fst (validate_data parse df) \<noteq>
     Inr (False, ''Column '' @ col @ '' contains non-numeric values that cannot be converted'')"
proof -
  have "fst (check_prices parse price_columns df) \<noteq>
     Inr (False, ''Column '' @ col @ '' contains non-numeric values that cannot be converted'')"
    using fst_check_prices_cases [of parse price_columns df] by auto
  then show ?thesis
    by (auto simp: validate_data_def Let_def split: option.splits sum.splits)
qed

text \<open>
  Claim C1 at Scenario D of the specification: the only row has the text \<open>abc\<close> as its
  \<open>flash_price\<close>. The text is no number, and yet the frame is accepted; the cell is
  replaced by a missing value.
\<close>

theorem validate_scenario_D_accepted:
  "parse_decimal ''abc'' = None \<and>
   fst (validate_data parse_decimal scenario_D) = Inr (True, ''Data validation successful'') \<and>
   columns scenario_D ''flash_price'' = Some (ObjectCol [Str ''abc'']) \<and>
   columns (snd (validate_data parse_decimal scenario_D)) ''flash_price'' = Some (NumericCol [None])"
  by (simp add: scenario_D_def frame_defs run_defs)

lemma main_store:
  "snd (main_validate_upload parse ev bq df clicked) =
     (if clicked \<and> (\<exists>m. fst (validate_data parse df) = Inr (True, m))
      then snd (upload_to_bigquery ev bq (snd (validate_data parse df))) else bq)"
  by (auto simp: main_validate_upload_def split: prod.splits sum.splits)

text \<open>
  Claim C2. When the first three checks pass, validation succeeds whatever the price
  columns hold. A price column of dtype \<open>object\<close> is replaced by a numeric column, each
  cell converted by \<open>to_numeric_cell\<close>; a non-empty text that does not parse becomes a
  missing value. The frame so changed is the one \<open>main\<close> hands to the upload.
\<close>

theorem validate_coerces_prices:
  assumes "has_required_columns df" "columns df ''c_code'' = Some cc" "codes_present cc"
    "distinct (tolist cc)"
  shows "fst (validate_data parse df) = Inr (True, ''Data validation successful'')
     \<and> (\<forall>col\<in>set price_columns. \<forall>cs. columns df col = Some (ObjectCol cs) \<longrightarrow>
           columns (snd (validate_data parse df)) col = Some (NumericCol (map (to_numeric_cell parse) cs))
           \<and> (\<forall>i<length cs. \<forall>s. cs ! i = Str s \<and> s \<noteq> [] \<and> parse s = None \<longrightarrow>
                 cell_at (snd (validate_data parse df)) col i = Null))
     \<and> (\<forall>ev bq. snd (main_validate_upload parse ev bq df True)
                   = snd (upload_to_bigquery ev bq (snd (validate_data parse df))))"
proof -
  have v: "validate_data parse df = check_prices parse price_columns df"
    using validate_passes [OF assms] .
  have pres: "\<forall>c\<in>set price_columns. columns df c \<noteq> None"
    using has_required_prices [OF assms(1)] .
  have ok: "fst (validate_data parse df) = Inr (True, ''Data validation successful'')"
    using v pres by (simp add: fst_check_prices)
  have cols: "columns (snd (validate_data parse df)) col = Some (NumericCol (map (to_numeric_cell parse) cs))"
    if "col \<in> set price_columns" "columns df col = Some (ObjectCol cs)" for col cs
    using columns_check_prices_in [OF pres that(1), of parse] that(2) v by (simp add: coerced_def)
  have cell: "cell_at (snd (validate_data parse df)) col i = Null"
    if "col \<in> set price_columns" "columns df col = Some (ObjectCol cs)" "i < length cs"
      "cs ! i = Str s" "s \<noteq> []" "parse s = None" for col cs i s
    using cols [OF that(1,2)] that(3-6) by (simp add: cell_at_def)
  have main: "snd (main_validate_upload parse ev bq df True)
                   = snd (upload_to_bigquery ev bq (snd (validate_data parse df)))" for ev bq
    using ok by (simp add: main_store)
  show ?thesis using ok cols cell main by blast
qed

theorem validate_coerces_prices_witness:
  "has_required_columns scenario_D \<and>
   columns scenario_D ''c_code'' = Some (ObjectCol [Str ''c-001'']) \<and>
   codes_present (ObjectCol [Str ''c-001''] :: int column) \<and>
   columns scenario_D ''flash_price'' = Some (ObjectCol [Str ''abc'']) \<and>
   parse_decimal ''abc'' = None \<and>
   fst (validate_data parse_decimal scenario_D) = Inr (True, ''Data validation successful'') \<and>
   columns (snd (validate_data parse_decimal scenario_D)) ''flash_price'' = Some (NumericCol [None]) \<and>
   cell_at (snd (validate_data parse_decimal scenario_D)) ''flash_price'' 0 = Null \<and>
   table_rows (snd (main_validate_upload parse_decimal store_confirms earlier_upload scenario_D True)) =
     [[(''c_code'', Str ''c-000''), (''flash_price'', Num 19000),
       (''consignment_price'', Null), (''speed_discount_price'', Null)],
      [(''c_code'', Str ''c-001''), (''flash_price'', Null),
       (''consignment_price'', Num 27000), (''speed_discount_price'', Num 24000)]]"
proof -
  let ?cc = "ObjectCol [Str ''c-001''] :: int column"
  have h1: "has_required_columns scenario_D"
    by (simp add: scenario_D_def frame_defs)
  have h2: "columns scenario_D ''c_code'' = Some ?cc"
    by (simp add: scenario_D_def frame_defs)
  have h3: "codes_present ?cc" by (simp add: codes_present_def)
  have h4: "distinct (tolist ?cc)" by simp
  have fp: "columns scenario_D ''flash_price'' = Some (ObjectCol [Str ''abc''])"
    by (simp add: scenario_D_def frame_defs)
  have abc: "parse_decimal ''abc'' = None"
    by (simp add: parse_decimal_def digit_val_def)
  note T = validate_coerces_prices [OF h1 h2 h3 h4, of parse_decimal]
  have ok: "fst (validate_data parse_decimal scenario_D) = Inr (True, ''Data validation successful'')"
    using T by blast
  have col: "columns (snd (validate_data parse_decimal scenario_D)) ''flash_price'' = Some (NumericCol [None])"
    using T fp abc by (simp add: price_columns_def)
  have cell: "cell_at (snd (validate_data parse_decimal scenario_D)) ''flash_price'' 0 = Null"
    using T fp abc by (simp add: price_columns_def)
  have "snd (main_validate_upload parse_decimal store_confirms earlier_upload scenario_D True)
          = snd (upload_to_bigquery store_confirms earlier_upload (snd (validate_data parse_decimal scenario_D)))"
    using T by blast
  then have rows: "table_rows (snd (main_validate_upload parse_decimal store_confirms earlier_upload scenario_D True)) =
     [[(''c_code'', Str ''c-000''), (''flash_price'', Num 19000),
       (''consignment_price'', Null), (''speed_discount_price'', Null)],
      [(''c_code'', Str ''c-001''), (''flash_price'', Null),
       (''consignment_price'', Num 27000), (''speed_discount_price'', Num 24000)]]"
    by (simp add: upload_store_confirms validated_scenario_D earlier_upload_def)
  show ?thesis using h1 h2 h3 fp abc ok col cell rows by simp
qed

lemma fst_validate_cong:
  assumes "\<forall>c. (columns df2 c = None) = (columns df1 c = None)"
    "columns df2 ''c_code'' = columns df1 ''c_code''"
  shows "fst (validate_data parse df2) = fst (validate_data parse df1)"
proof -
  have missing: "filter (\<lambda>col. columns df2 col = None) required_columns
                   = filter (\<lambda>col. columns df1 col = None) required_columns"
    using assms(1) by simp
  show ?thesis
  proof (cases "has_required_columns df1")
    case False
    then show ?thesis using missing by (simp add: validate_data_def has_required_iff)
  next
    case True
    then have req2: "has_required_columns df2" using missing by (simp add: has_required_iff)
    have p1: "fst (check_prices parse price_columns df1) = Inr (True, ''Data validation successful'')"
      using has_required_prices [OF True] by (simp add: fst_check_prices)
    have p2: "fst (check_prices parse price_columns df2) = Inr (True, ''Data validation successful'')"
      using has_required_prices [OF req2] by (simp add: fst_check_prices)
    show ?thesis using True req2 assms(2) p1 p2
      by (auto simp: validate_data_def has_required_iff split: option.splits sum.splits)
  qed
qed

text \<open>
  Claim C7. A second call, on the frame the first call leaves, gives the result of the
  first call: the same exception, or the same pair of verdict and message.
\<close>

theorem validate_idempotent:
  "fst (validate_data parse (snd (validate_data parse df))) = fst (validate_data parse df)"
  by (rule fst_validate_cong) (simp_all add: columns_validate_None columns_validate_other price_columns_def)

theorem validate_idempotent_witness:
  "columns (snd (validate_data parse_decimal scenario_D)) ''flash_price'' \<noteq> columns scenario_D ''flash_price'' \<and>
   fst (validate_data parse_decimal (snd (validate_data parse_decimal scenario_D)))
     = Inr (True, ''Data validation successful'') \<and>
   fst (validate_data parse_decimal (snd (validate_data parse_decimal thrice)))
     = Inr (False, ''Duplicate c_code values found: c-001, c-001'')"
proof -
  have d: "columns (snd (validate_data parse_decimal scenario_D)) ''flash_price'' \<noteq> columns scenario_D ''flash_price''"
    by (simp add: scenario_D_def frame_defs run_defs)
  have t: "fst (validate_data parse_decimal thrice) = Inr (False, ''Duplicate c_code values found: c-001, c-001'')"
    by (simp add: thrice_def frame_defs run_defs)
  show ?thesis
    using d t validate_idempotent [of parse_decimal scenario_D] validate_idempotent [of parse_decimal thrice]
    by (simp add: validated_scenario_D)
qed

text \<open>
  Claim C8. The call leaves the number of rows and every column other than the three
  price columns as they were, the \<open>c_code\<close> column among them, cell by cell and in its
  order; a price column keeps its length. When \<open>main\<close> goes on to the upload, it uploads
  the frame the call has left; when validation does not succeed, nothing is uploaded.
\<close>

theorem validate_frame:
  "nrows (snd (validate_data parse df)) = nrows df
   \<and> columns (snd (validate_data parse df)) ''c_code'' = columns df ''c_code''
   \<and> (\<forall>c. c \<notin> set price_columns \<longrightarrow> columns (snd (validate_data parse df)) c = columns df c)
   \<and> (\<forall>c. map_option (\<lambda>k. length (tolist k)) (columns (snd (validate_data parse df)) c)
            = map_option (\<lambda>k. length (tolist k)) (columns df c))
   \<and> (\<forall>ev bq. snd (main_validate_upload parse ev bq df True) =
          (if \<exists>m. fst (validate_data parse df) = Inr (True, m)
           then snd (upload_to_bigquery ev bq (snd (validate_data parse df))) else bq))"
  by (simp add: nrows_validate columns_validate_other columns_validate_length main_store price_columns_def)


theorem validate_frame_witness:
  "nrows (snd (validate_data parse_decimal scenario_D)) = 1 \<and>
   columns (snd (validate_data parse_decimal scenario_D)) ''c_code'' = Some (ObjectCol [Str ''c-001'']) \<and>
   columns (snd (validate_data parse_decimal scenario_D)) ''flash_price'' \<noteq> columns scenario_D ''flash_price'' \<and>
   map job_frame (jobs (snd (main_validate_upload parse_decimal store_confirms earlier_upload scenario_D True)))
     = [snd (validate_data parse_decimal scenario_D)] \<and>
   snd (main_validate_upload parse_decimal store_confirms earlier_upload several_faults True) = earlier_upload"
proof -
  have n: "nrows scenario_D = 1" by (simp add: scenario_D_def frame_defs)
  have c: "columns scenario_D ''c_code'' = Some (ObjectCol [Str ''c-001''])"
    by (simp add: scenario_D_def frame_defs)
  have d: "columns (snd (validate_data parse_decimal scenario_D)) ''flash_price'' \<noteq> columns scenario_D ''flash_price''"
    by (simp add: scenario_D_def frame_defs run_defs)
  have f: "fst (validate_data parse_decimal several_faults) = Inr (False, ''c_code column cannot have empty values'')"
    by (simp add: several_faults_def frame_defs run_defs)
  note T = validate_frame [of parse_decimal scenario_D]
  note U = validate_frame [of parse_decimal several_faults]
  have j: "jobs earlier_upload = []" by (simp add: earlier_upload_def)
  have t1: "nrows (snd (validate_data parse_decimal scenario_D)) = 1" using T n by simp
  have t2: "columns (snd (validate_data parse_decimal scenario_D)) ''c_code'' = Some (ObjectCol [Str ''c-001''])"
    using T c by simp
  have "snd (main_validate_upload parse_decimal store_confirms earlier_upload scenario_D True) =
          snd (upload_to_bigquery store_confirms earlier_upload (snd (validate_data parse_decimal scenario_D)))"
    using T by (simp add: validated_scenario_D)
  then have t3: "map job_frame (jobs (snd (main_validate_upload parse_decimal store_confirms earlier_upload scenario_D True)))
     = [snd (validate_data parse_decimal scenario_D)]"
    by (simp add: upload_store_confirms j)
  have t4: "snd (main_validate_upload parse_decimal store_confirms earlier_upload several_faults True) = earlier_upload"
    using U f by simp
  show ?thesis using t1 t2 d t3 t4 by simp
qed

section \<open>The upload\<close>

lemma absent_class: "k \<noteq> Exception_class \<longleftrightarrow> k = KeyError_class \<or> k = FileNotFoundError_class"
  by (cases k) auto

lemma length_frame_rows: "length (frame_rows df) = nrows df"
  by (simp add: frame_rows_def)

text \<open>
  Claim C9. When the secret store has no entry and the local file is absent (the first
  source raises \<open>KeyError\<close> or \<open>FileNotFoundError\<close>, the second
  \<open>FileNotFoundError\<close>), the call returns failure with the fixed message that no
  credentials were found. Whenever neither source yields credentials, for whatever reason,
  the call returns failure, no load job is submitted and the table is as it was; when a
  source fails otherwise than by absence, the message carries that failure's text. The
  function returns a pair in every case: its outer handler catches every exception.
\<close>

theorem upload_no_credentials:
  assumes "secrets_service_account ev = Inl e1" "service_account_file ev = Inl e2"
  shows "fst (fst (upload_to_bigquery ev bq df)) = False
     \<and> snd (upload_to_bigquery ev bq df) = bq
     \<and> (exn_class e1 \<noteq> Exception_class \<and> exn_class e2 = FileNotFoundError_class \<longrightarrow>
          snd (fst (upload_to_bigquery ev bq df)) = ''Error: No credentials found for BigQuery access'')
     \<and> (exn_class e1 \<noteq> Exception_class \<and> exn_class e2 \<noteq> FileNotFoundError_class \<longrightarrow>
          snd (fst (upload_to_bigquery ev bq df)) = ''Error appending to BigQuery: '' @ exn_text e2)
     \<and> (exn_class e1 = Exception_class \<longrightarrow>
          snd (fst (upload_to_bigquery ev bq df)) = ''Error appending to BigQuery: '' @ exn_text e1)"
  using assms by (cases "exn_class e1") (auto simp: upload_to_bigquery_def append_error_def)

theorem upload_no_credentials_witness:
  "secrets_service_account no_credentials = Inl \<lparr>exn_class = KeyError_class, exn_text = ''service_account''\<rparr> \<and>
   service_account_file no_credentials =
     Inl \<lparr>exn_class = FileNotFoundError_class, exn_text = ''No such file: service_account.json''\<rparr> \<and>
   fst (upload_to_bigquery no_credentials earlier_upload scenario_A)
     = (False, ''Error: No credentials found for BigQuery access'') \<and>
   snd (upload_to_bigquery no_credentials earlier_upload scenario_A) = earlier_upload"
proof -
  let ?e1 = "\<lparr>exn_class = KeyError_class, exn_text = ''service_account''\<rparr>"
  let ?e2 = "\<lparr>exn_class = FileNotFoundError_class, exn_text = ''No such file: service_account.json''\<rparr>"
  have h1: "secrets_service_account no_credentials = Inl ?e1"
    by (simp add: no_credentials_def)
  have h2: "service_account_file no_credentials = Inl ?e2"
    by (simp add: no_credentials_def)
  show ?thesis
    using h1 h2 upload_no_credentials [OF h1 h2, of earlier_upload scenario_A]
    by (simp add: prod_eq_iff)
qed

text \<open>
  Claim C10. When one of the two sources yields credentials (the file being asked only
  when the secret store has none) and the store answers no error, the call submits one
  load job: for the fixed table, in mode \<open>WRITE_APPEND\<close>, with the schema of four
  fields, carrying the frame. It returns success with the number of rows of the frame in
  the message. The table holds its earlier rows, unchanged and in front, followed by one
  row for each row of the frame.
\<close>

theorem upload_appends:
  assumes "secrets_service_account ev = Inr cred \<or>
           (\<exists>e. secrets_service_account ev = Inl e \<and> exn_class e \<noteq> Exception_class \<and>
                service_account_file ev = Inr cred)"
    "client_reply ev = None" "load_reply ev = None" "result_reply ev = None"
  shows "fst (upload_to_bigquery ev bq df)
           = (True, ''Successfully uploaded '' @ str_nat (nrows df) @ '' rows to showroom_discount table'')
     \<and> jobs (snd (upload_to_bigquery ev bq df))
           = jobs bq @ [\<lparr>job_credentials = cred, job_table_id = table_id,
                         job_write_disposition = ''WRITE_APPEND'', job_schema = schema,
                         job_frame = df\<rparr>]
     \<and> table_rows (snd (upload_to_bigquery ev bq df)) = table_rows bq @ frame_rows df
     \<and> length (table_rows (snd (upload_to_bigquery ev bq df))) = length (table_rows bq) + nrows df
     \<and> take (length (table_rows bq)) (table_rows (snd (upload_to_bigquery ev bq df))) = table_rows bq"
proof -
  have load: "upload_to_bigquery ev bq df = load_frame ev bq df cred"
    using assms(1) by (cases "secrets_service_account ev") (auto simp: upload_to_bigquery_def absent_class)
  show ?thesis
    unfolding load using assms(2-4) by (simp add: load_frame_def Let_def length_frame_rows)
qed

theorem upload_appends_witness:
  "(\<exists>e. secrets_service_account store_confirms = Inl e \<and> exn_class e \<noteq> Exception_class) \<and>
   service_account_file store_confirms = Inr ''key-from-file'' \<and>
   client_reply store_confirms = None \<and> load_reply store_confirms = None \<and>
   result_reply store_confirms = None \<and>
   fst (validate_data parse_decimal scenario_A) = Inr (True, ''Data validation successful'') \<and>
   fst (upload_to_bigquery store_confirms earlier_upload (snd (validate_data parse_decimal scenario_A)))
     = (True, ''Successfully uploaded 2 rows to showroom_discount table'') \<and>
   length (jobs (snd (upload_to_bigquery store_confirms earlier_upload
                        (snd (validate_data parse_decimal scenario_A))))) = 1 \<and>
   table_rows (snd (upload_to_bigquery store_confirms earlier_upload
                      (snd (validate_data parse_decimal scenario_A)))) =
     [[(''c_code'', Str ''c-000''), (''flash_price'', Num 19000),
       (''consignment_price'', Null), (''speed_discount_price'', Null)],
      [(''c_code'', Str ''c-001''), (''flash_price'', Num 25000),
       (''consignment_price'', Num 27000), (''speed_discount_price'', Num 24000)],
      [(''c_code'', Str ''c-002''), (''flash_price'', Num 30000),
       (''consignment_price'', Null), (''speed_discount_price'', Num 21000)]]"
proof -
  let ?df = "snd (validate_data parse_decimal scenario_A)"
  have h1: "secrets_service_account store_confirms = Inr ''key-from-file'' \<or>
           (\<exists>e. secrets_service_account store_confirms = Inl e \<and> exn_class e \<noteq> Exception_class \<and>
                service_account_file store_confirms = Inr ''key-from-file'')"
    by (simp add: store_confirms_def)
  have h2: "client_reply store_confirms = None" by (simp add: store_confirms_def)
  have h3: "load_reply store_confirms = None" by (simp add: store_confirms_def)
  have h4: "result_reply store_confirms = None" by (simp add: store_confirms_def)
  have src: "(\<exists>e. secrets_service_account store_confirms = Inl e \<and> exn_class e \<noteq> Exception_class)"
    "service_account_file store_confirms = Inr ''key-from-file''"
    by (simp_all add: store_confirms_def)
  have before: "table_rows earlier_upload =
     [[(''c_code'', Str ''c-000''), (''flash_price'', Num 19000),
       (''consignment_price'', Null), (''speed_discount_price'', Null)]]" "jobs earlier_upload = []"
    by (simp_all add: earlier_upload_def)
  show ?thesis
    using src h2 h3 h4 upload_appends [OF h1 h2 h3 h4, of earlier_upload ?df]
    by (simp add: validated_scenario_A str_nat_small before)
qed

end
